theory Spec2Isabelle
  imports Complex_Main "HOL-Library.Product_Lexorder" "HOL-Library.Char_ord" "HOL-Library.List_Lexorder"
begin

section \<open>Exceptions\<close>

text \<open>
  The Python sources raise built-in exceptions only. Each one that a modelled path can
  raise is a constructor; a function that can raise returns \<open>py_error + 'a\<close>, with
  \<open>Inl\<close> for the exception.
\<close>

datatype py_error =
    ValueError string
  | KeyError "string list"
  | AttributeError string
  | TypeError string
  | IndexError
  | FileNotFoundError string
  | UnpicklingError

section \<open>Numeric feature tables\<close>

text \<open>
  A numeric pandas DataFrame: the number of rows (\<open>len(df)\<close>) and the columns in
  order, each a name with its values. A cell is a float or missing (NaN), so it is a
  \<open>real option\<close> with \<open>None\<close> for NaN. Floats are read as the reals they denote.
\<close>

type_synonym cell = "real option"

record frame =
  nrows :: nat
  cols :: "(string \<times> cell list) list"

definition wf_frame :: "frame \<Rightarrow> bool" where
  "wf_frame df = (distinct (map fst (cols df)) \<and> list_all (\<lambda>cx. length (snd cx) = nrows df) (cols df))"

definition columns :: "frame \<Rightarrow> string list" where
  "columns df = map fst (cols df)"

definition column :: "frame \<Rightarrow> string \<Rightarrow> cell list option" where
  "column df c = map_of (cols df) c"

text \<open>\<open>Series.median()\<close>: the median of the values that are present, NaN when there are none.\<close>

definition present :: "'a option list \<Rightarrow> 'a list" where
  "present xs = concat (map (\<lambda>v. case v of None \<Rightarrow> [] | Some x \<Rightarrow> [x]) xs)"

definition median :: "cell list \<Rightarrow> cell" where
  "median xs =
     (let ys = sort (present xs); n = length ys in
      if n = 0 then None
      else if odd n then Some (ys ! (n div 2))
      else Some ((ys ! (n div 2 - 1) + ys ! (n div 2)) / 2))"

text \<open>\<open>Series.fillna(v)\<close>: a NaN fill value leaves the missing cells missing.\<close>

definition fillna :: "'a option list \<Rightarrow> 'a option \<Rightarrow> 'a option list" where
  "fillna xs v = map (\<lambda>x. case x of None \<Rightarrow> v | Some y \<Rightarrow> Some y) xs"

text \<open>\<open>df.fillna(df.median())\<close>: every column is filled with its own median.\<close>

definition fillna_median :: "frame \<Rightarrow> frame" where
  "fillna_median df = df\<lparr>cols := map (\<lambda>cx. (fst cx, fillna (snd cx) (median (snd cx)))) (cols df)\<rparr>"

text \<open>
  \<open>df[names]\<close> with a list of labels: pandas raises KeyError when a label is not a
  column, and otherwise gives the named columns in the order of \<open>names\<close>.
\<close>

definition select_columns :: "frame \<Rightarrow> string list \<Rightarrow> py_error + frame" where
  "select_columns X names =
     (let missing = filter (\<lambda>c. c \<notin> set (columns X)) names in
      if missing \<noteq> [] then Inl (KeyError missing)
      else Inr \<lparr>nrows = nrows X,
                cols = map (\<lambda>c. (c, case column X c of Some xs \<Rightarrow> xs | None \<Rightarrow> [])) names\<rparr>)"

text \<open>The rows of a table, as the estimator reads them.\<close>

definition rows_of :: "frame \<Rightarrow> cell list list" where
  "rows_of X = map (\<lambda>i. map (\<lambda>cx. snd cx ! i) (cols X)) [0..<nrows X]"

section \<open>config.py\<close>

definition RISK_THRESHOLDS_high :: real where
  "RISK_THRESHOLDS_high = 0.65"

definition RISK_THRESHOLDS_medium :: real where
  "RISK_THRESHOLDS_medium = 0.35"

text \<open>
  XGBoost gives its probabilities as float32 values. numpy (from version 2) compares a
  float32 value with a Python float in float32: the Python float is rounded to float32
  first. \<open>float32_high\<close> and \<open>float32_medium\<close> are the two thresholds after that
  rounding, the binary32 numbers nearest 0.65 and 0.35 (0.64999997615814208984375 and
  0.349999994039535522460937500). A float32 probability is read as the real it denotes.
\<close>

definition float32_high :: real where
  "float32_high = 10905190 / 2 ^ 24"

definition float32_medium :: real where
  "float32_medium = 11744051 / 2 ^ 25"

section \<open>model\_trainer.py: DropoutPredictor\<close>

text \<open>
  The fitted XGBoost classifier is a library object. It is modelled by what the
  repository calls on it: \<open>predict\<close> (a class label per row) and
  \<open>predict_proba(...)[:, 1]\<close> (the probability of class 1 per row).
\<close>

record estimator =
  est_predict :: "cell list \<Rightarrow> int"
  est_predict_proba :: "cell list \<Rightarrow> real"

text \<open>
  The fields of \<open>DropoutPredictor\<close> that the modelled methods read or write
  (\<open>label_encoder\<close> and \<open>scaler\<close> are never used after \<open>__init__\<close>).
\<close>

record predictor =
  model :: "estimator option"
  feature_columns :: "string list"
  training_metrics :: "(string \<times> real) list"
  model_version :: "string option"
  is_trained :: bool

definition init_predictor :: predictor where
  "init_predictor = \<lparr>model = None, feature_columns = [], training_metrics = [],
                      model_version = None, is_trained = False\<rparr>"

subsection \<open>\_create\_synthetic\_target\<close>

text \<open>\<open>(df[c] < k).astype(int)\<close>: a comparison with NaN is False.\<close>

definition lt_indicator :: "cell list \<Rightarrow> real \<Rightarrow> int list" where
  "lt_indicator xs k = map (\<lambda>v. case v of None \<Rightarrow> 0 | Some x \<Rightarrow> if x < k then 1 else 0) xs"

text \<open>\<open>target += indicator * w\<close>, element by element.\<close>

definition add_weighted :: "int list \<Rightarrow> int list \<Rightarrow> int \<Rightarrow> int list" where
  "add_weighted target ind w = map (\<lambda>tb. fst tb + snd tb * w) (zip target ind)"

definition risk_weights :: "frame \<Rightarrow> int list" where
  "risk_weights df =
     (let target = replicate (nrows df) 0;
          target = (case column df ''attendance_percentage'' of None \<Rightarrow> target
                    | Some xs \<Rightarrow> add_weighted target (lt_indicator xs 60) 2);
          target = (case column df ''assignment_timeliness'' of None \<Rightarrow> target
                    | Some xs \<Rightarrow> add_weighted target (lt_indicator xs 50) 2);
          target = (case column df ''quiz_test_avg_pct'' of None \<Rightarrow> target
                    | Some xs \<Rightarrow> add_weighted target (lt_indicator xs 50) 2);
          target = (case column df ''fee_payment_status'' of None \<Rightarrow> target
                    | Some xs \<Rightarrow> add_weighted target (lt_indicator xs 0.5) 1);
          target = (case column df ''lms_login_count_monthly'' of None \<Rightarrow> target
                    | Some xs \<Rightarrow> add_weighted target (lt_indicator xs 5) 1)
      in target)"

text \<open>
  \<open>_create_synthetic_target\<close>: the accumulated weights (\<open>risk_weights\<close>, the value
  of \<open>target\<close> before line 89), then \<open>(target >= 3).astype(int)\<close>.
\<close>

definition create_synthetic_target :: "frame \<Rightarrow> int list" where
  "create_synthetic_target df = map (\<lambda>t. if t \<ge> 3 then 1 else 0) (risk_weights df)"

subsection \<open>prepare\_training\_data\<close>

text \<open>
  Every column of a numeric table passes \<open>select_dtypes(include=[np.number])\<close>. The
  labels are the target column when the table has one and the synthetic labels
  otherwise. Returns the updated predictor, the features and the labels.
\<close>

definition prepare_training_data ::
    "predictor \<Rightarrow> frame \<Rightarrow> string \<Rightarrow> predictor \<times> frame \<times> cell list" where
  "prepare_training_data self df target_column =
     (let target = (if target_column \<notin> set (columns df)
                    then map (\<lambda>t. Some (of_int t)) (create_synthetic_target df)
                    else (case column df target_column of Some xs \<Rightarrow> xs | None \<Rightarrow> []));
          feature_cols = filter (\<lambda>c. c \<notin> set [''student_id'', target_column]) (columns df);
          features = df\<lparr>cols := filter (\<lambda>cx. fst cx \<in> set feature_cols) (cols df)\<rparr>
      in (self\<lparr>feature_columns := feature_cols\<rparr>, fillna_median features, target))"

subsection \<open>predict\<close>

text \<open>
  The chain of lines 230 to 235 for one probability: \<open>prob\<close> is a float32 element of
  \<open>probabilities\<close>, so \<open>prob >= RISK_THRESHOLDS['high']\<close> compares it with the
  float32 value of the threshold.
\<close>

definition risk_label :: "real \<Rightarrow> string" where
  "risk_label prob =
     (if prob \<ge> float32_high then ''High''
      else if prob \<ge> float32_medium then ''Medium''
      else ''Low'')"

definition predict :: "predictor \<Rightarrow> frame \<Rightarrow> py_error + (int list \<times> real list \<times> string list)" where
  "predict self X =
     (if \<not> is_trained self then Inl (ValueError ''Model must be trained before making predictions'')
      else case select_columns X (feature_columns self) of
        Inl e \<Rightarrow> Inl e
      | Inr Xs \<Rightarrow>
          (let X_processed = fillna_median Xs in
           case model self of
             None \<Rightarrow> Inl (AttributeError ''predict'')
           | Some est \<Rightarrow>
               (let predictions = map (est_predict est) (rows_of X_processed);
                    probabilities = map (est_predict_proba est) (rows_of X_processed);
                    risk_labels = map risk_label probabilities
                in Inr (predictions, probabilities, risk_labels))))"

subsection \<open>load\_model\<close>








section \<open>explainability.py: ModelExplainer\<close>

text \<open>
  \<open>shap.TreeExplainer\<close> is a library object, modelled by what the repository reads
  from it: the attribution vector of a row and the baseline \<open>expected_value\<close>.
  \<open>ModelExplainer.model\<close> is a reference to the shared \<open>DropoutPredictor\<close>; the
  functions below take that predictor as an argument of its own.
\<close>

record tree_explainer =
  te_shap_values :: "cell list \<Rightarrow> real list"
  te_expected_value :: real

record model_explainer =
  explainer :: "tree_explainer option"
  expected_value :: "real option"

definition init_explainer :: model_explainer where
  "init_explainer = \<lparr>explainer = None, expected_value = None\<rparr>"

definition initialize_explainer ::
    "(estimator \<Rightarrow> tree_explainer) \<Rightarrow> predictor \<Rightarrow> model_explainer \<Rightarrow> frame \<Rightarrow> py_error + model_explainer" where
  "initialize_explainer TreeExplainer m self X_background =
     (if \<not> is_trained m then Inl (ValueError ''Model must be trained before initializing explainer'')
      else case model m of
        None \<Rightarrow> Inl (TypeError ''Model type not supported by TreeExplainer'')
      | Some est \<Rightarrow>
          (let ex = TreeExplainer est in
           Inr (self\<lparr>explainer := Some ex, expected_value := Some (te_expected_value ex)\<rparr>)))"

record global_explanation =
  feature_importance :: "(string \<times> cell) list"
  feature_impact :: "(string \<times> cell \<times> cell) list"
  ge_shap_values :: "real list list"
  ge_expected_value :: "real option"

text \<open>\<open>a.mean(axis=0)\<close> at column \<open>j\<close>: NaN for a matrix with no rows.\<close>

definition column_mean :: "real list list \<Rightarrow> nat \<Rightarrow> cell" where
  "column_mean rows j =
     (if rows = [] then None else Some (sum_list (map (\<lambda>r. r ! j) rows) / real (length rows)))"

definition indicator :: "bool \<Rightarrow> real" where
  "indicator b = (if b then 1 else 0)"

text \<open>
  A descending stable sort: a stable ascending sort of the reversed list, reversed.
  It is \<open>list.sort(key=..., reverse=True)\<close> of Python, which is stable. It also
  stands for \<open>sort_values(..., ascending=False)\<close> of pandas, which leaves the order
  of equal keys open; NaN keys (\<open>None\<close>) go last there.
\<close>

definition sort_reverse :: "('a \<Rightarrow> 'k::linorder) \<Rightarrow> 'a list \<Rightarrow> 'a list" where
  "sort_reverse key xs = rev (sort_key key (rev xs))"

definition sort_importance :: "(string \<times> cell) list \<Rightarrow> (string \<times> cell) list" where
  "sort_importance fi =
     sort_reverse (\<lambda>p. case snd p of Some v \<Rightarrow> v | None \<Rightarrow> 0) (filter (\<lambda>p. snd p \<noteq> None) fi)
       @ filter (\<lambda>p. snd p = None) fi"

text \<open>
  \<open>explain_global\<close>. The attribution matrix has a row for each row of \<open>X\<close> and a
  column for each column of \<open>X\<close>; building a table of it beside \<open>feature_columns\<close>
  raises ValueError when the two differ in length.
\<close>

definition explain_global ::
    "predictor \<Rightarrow> model_explainer \<Rightarrow> frame \<Rightarrow> py_error + global_explanation" where
  "explain_global m self X =
     (case explainer self of
        None \<Rightarrow> Inl (ValueError ''Explainer not initialized. Call initialize_explainer first.'')
      | Some ex \<Rightarrow>
          (let shap_values = map (te_shap_values ex) (rows_of X);
               names = feature_columns m;
               js = [0..<length (cols X)]
           in if length names \<noteq> length (cols X)
              then Inl (ValueError ''All arrays must be of the same length'')
              else Inr \<lparr>
                feature_importance = sort_importance
                  (zip names (map (\<lambda>j. column_mean (map (map abs) shap_values) j) js)),
                feature_impact = zip names
                  (map (\<lambda>j. (column_mean (map (map (\<lambda>v. indicator (v > 0))) shap_values) j,
                              column_mean (map (map (\<lambda>v. indicator (v < 0))) shap_values) j)) js),
                ge_shap_values = shap_values,
                ge_expected_value = expected_value self\<rparr>))"

record local_explanation =
  student_index :: int
  prediction :: int
  probability :: real
  risk_level :: string
  top_features :: "(string \<times> real \<times> real) list"
  shap_values :: "real list"
  feature_values :: "(string \<times> cell) list"
  le_expected_value :: "real option"

text \<open>
  The tier chain written out in \<open>explain_local\<close> (lines 120 to 126). \<open>probability\<close>
  is a float32 there too, so the literals 0.65 and 0.35 are compared as their float32
  values.
\<close>

definition local_risk_level :: "real \<Rightarrow> string" where
  "local_risk_level p =
     (if p \<ge> float32_high then ''High''
      else if p \<ge> float32_medium then ''Medium''
      else ''Low'')"

text \<open>
  \<open>X.iloc[student_indices]\<close>: positional rows; a negative index counts from the end,
  an index out of range raises IndexError.
\<close>

definition iloc :: "frame \<Rightarrow> int list \<Rightarrow> py_error + cell list list" where
  "iloc X idx =
     (let n = int (nrows X) in
      if list_ex (\<lambda>i. i < - n \<or> n \<le> i) idx then Inl IndexError
      else Inr (map (\<lambda>i. rows_of X ! nat (if i < 0 then i + n else i)) idx))"

text \<open>
  One round of the loop of \<open>explain_local\<close> (lines 104 to 140). Building the
  contributions table raises ValueError when the attribution vector and
  \<open>feature_columns\<close> differ in length; \<open>self.model.model.predict\<close> raises
  AttributeError when the predictor holds no estimator.
\<close>

definition explain_one ::
    "predictor \<Rightarrow> model_explainer \<Rightarrow> tree_explainer \<Rightarrow> frame \<Rightarrow> int \<Rightarrow> cell list \<Rightarrow>
       py_error + local_explanation" where
  "explain_one m self ex X student_idx row =
     (let student_shap = te_shap_values ex row in
      if length student_shap \<noteq> length (feature_columns m)
      then Inl (ValueError ''All arrays must be of the same length'')
      else
        (let feature_contributions =
               sort_reverse (\<lambda>t. snd (snd t))
                 (map (\<lambda>fv. (fst fv, snd fv, \<bar>snd fv\<bar>)) (zip (feature_columns m) student_shap))
         in case model m of
              None \<Rightarrow> Inl (AttributeError ''predict'')
            | Some est \<Rightarrow>
                (let p = est_predict_proba est row
                 in Inr \<lparr>student_index = student_idx,
                         prediction = est_predict est row,
                         probability = p,
                         risk_level = local_risk_level p,
                         top_features = take 3 feature_contributions,
                         shap_values = student_shap,
                         feature_values = zip (columns X) row,
                         le_expected_value = expected_value self\<rparr>)))"

text \<open>The results of a loop whose rounds can raise: the first exception ends it.\<close>

fun collect :: "(py_error + 'a) list \<Rightarrow> py_error + 'a list" where
  "collect [] = Inr []"
| "collect (r # rs) =
     (case r of
        Inl e \<Rightarrow> Inl e
      | Inr v \<Rightarrow> (case collect rs of Inl e \<Rightarrow> Inl e | Inr vs \<Rightarrow> Inr (v # vs)))"

text \<open>
  \<open>explain_local\<close>: \<open>student_indices = None\<close> explains every row. Returns the list
  under \<open>'explanations'\<close> and the baseline under \<open>'expected_value'\<close>.
\<close>

definition explain_local ::
    "predictor \<Rightarrow> model_explainer \<Rightarrow> frame \<Rightarrow> int list option \<Rightarrow>
       py_error + (local_explanation list \<times> real option)" where
  "explain_local m self X student_indices =
     (case explainer self of
        None \<Rightarrow> Inl (ValueError ''Explainer not initialized. Call initialize_explainer first.'')
      | Some ex \<Rightarrow>
          (let idx = (case student_indices of None \<Rightarrow> map int [0..<nrows X] | Some l \<Rightarrow> l) in
           case iloc X idx of
             Inl e \<Rightarrow> Inl e
           | Inr X_selected \<Rightarrow>
               (case collect (map (\<lambda>ir. explain_one m self ex X (fst ir) (snd ir))
                               (zip idx X_selected)) of
                  Inl e \<Rightarrow> Inl e
                | Inr local_explanations \<Rightarrow> Inr (local_explanations, expected_value self))))"

section \<open>intervention\_system.py: InterventionRecommender\<close>

text \<open>
  \<open>student_data\<close> and \<open>feature_impacts\<close> are dicts from field names to numbers.
  \<open>current_value\<close> is an f-string of the raw value; it is kept as the value with the
  format that renders it.
\<close>

type_synonym num_dict = "string \<Rightarrow> real option"

datatype shown =
    Percent1 real
  | LoginsPerMonth real
  | HoursPerWeek1 real
  | Level real
  | Literal string

record intervention =
  factor :: string
  current_value :: shown
  target_value :: string
  recommendation :: string
  priority :: string
  priority_score :: int
  impact_score :: real
  intervention_type :: string
  timeline :: string
  resources_needed :: "string list"
  success_metrics :: "string list"

text \<open>\<open>d.get(k, dflt)\<close>.\<close>

definition dict_get :: "num_dict \<Rightarrow> string \<Rightarrow> real \<Rightarrow> real" where
  "dict_get d k dflt = (case d k of None \<Rightarrow> dflt | Some v \<Rightarrow> v)"

text \<open>\<open>dict(zip(ks, vs))\<close>: the pairs up to the shorter list; a repeated key keeps its last value.\<close>

definition dict_zip :: "string list \<Rightarrow> real list \<Rightarrow> num_dict" where
  "dict_zip ks vs = map_of (rev (zip ks vs))"

definition analyze_attendance_risk :: "num_dict \<Rightarrow> num_dict \<Rightarrow> intervention list" where
  "analyze_attendance_risk student_data feature_impacts =
     (let attendance = dict_get student_data ''attendance_percentage'' 100;
          attendance_impact = dict_get feature_impacts ''attendance_percentage'' 0
      in if attendance < 70 \<or> attendance_impact < - 0.1 then
           [\<lparr>factor = ''Low Attendance'',
             current_value = Percent1 attendance,
             target_value = ''>80%'',
             recommendation = ''Schedule counseling session and implement attendance tracking'',
             priority = ''High'',
             priority_score = 9,
             impact_score = \<bar>attendance_impact\<bar>,
             intervention_type = ''academic_support'',
             timeline = ''1-2 weeks'',
             resources_needed = [''Counselor'', ''Attendance tracking system''],
             success_metrics = [''Attendance improvement'', ''Engagement increase'']\<rparr>]
         else [])"

definition analyze_academic_performance_risk :: "num_dict \<Rightarrow> num_dict \<Rightarrow> intervention list" where
  "analyze_academic_performance_risk student_data feature_impacts =
     (let quiz_performance = dict_get student_data ''quiz_test_avg_pct'' 100;
          quiz_impact = dict_get feature_impacts ''quiz_test_avg_pct'' 0;
          assignment_timeliness = dict_get student_data ''assignment_timeliness'' 100;
          assignment_impact = dict_get feature_impacts ''assignment_timeliness'' 0
      in (if quiz_performance < 60 \<or> quiz_impact < - 0.1 then
            [\<lparr>factor = ''Poor Academic Performance'',
              current_value = Percent1 quiz_performance,
              target_value = ''>70%'',
              recommendation = ''Arrange tutoring and study groups'',
              priority = ''High'',
              priority_score = 8,
              impact_score = \<bar>quiz_impact\<bar>,
              intervention_type = ''academic_support'',
              timeline = ''2-4 weeks'',
              resources_needed = [''Tutor'', ''Study materials'', ''Study group facilitator''],
              success_metrics = [''Grade improvement'', ''Assignment completion'']\<rparr>]
          else []) @
         (if assignment_timeliness < 50 \<or> assignment_impact < - 0.1 then
            [\<lparr>factor = ''Assignment Delays'',
              current_value = Percent1 assignment_timeliness,
              target_value = ''>80%'',
              recommendation = ''Implement time management training and deadline reminders'',
              priority = ''Medium'',
              priority_score = 6,
              impact_score = \<bar>assignment_impact\<bar>,
              intervention_type = ''time_management'',
              timeline = ''1-3 weeks'',
              resources_needed = [''Time management coach'', ''Reminder system''],
              success_metrics = [''On-time submission rate'', ''Stress reduction'']\<rparr>]
          else []))"

definition analyze_financial_risk :: "num_dict \<Rightarrow> num_dict \<Rightarrow> intervention list" where
  "analyze_financial_risk student_data feature_impacts =
     (let payment_status = dict_get student_data ''fee_payment_status'' 1;
          payment_impact = dict_get feature_impacts ''fee_payment_status'' 0
      in if payment_status < 1 \<or> payment_impact < - 0.1 then
           [\<lparr>factor = ''Financial Issues'',
             current_value = Literal (if payment_status < 1 then ''Unpaid/Partial'' else ''Paid''),
             target_value = ''Fully Paid'',
             recommendation = ''Connect with financial aid office and explore payment plans'',
             priority = ''High'',
             priority_score = 9,
             impact_score = \<bar>payment_impact\<bar>,
             intervention_type = ''financial_support'',
             timeline = ''1-2 weeks'',
             resources_needed = [''Financial aid counselor'', ''Payment plan options''],
             success_metrics = [''Payment completion'', ''Financial stress reduction'']\<rparr>]
         else [])"

definition analyze_engagement_risk :: "num_dict \<Rightarrow> num_dict \<Rightarrow> intervention list" where
  "analyze_engagement_risk student_data feature_impacts =
     (let lms_logins = dict_get student_data ''lms_login_count_monthly'' 0;
          lms_impact = dict_get feature_impacts ''lms_login_count_monthly'' 0;
          online_time = dict_get student_data ''time_spent_online_hours_week'' 0;
          online_impact = dict_get feature_impacts ''time_spent_online_hours_week'' 0
      in (if lms_logins < 5 \<or> lms_impact < - 0.05 then
            [\<lparr>factor = ''Low Online Engagement'',
              current_value = LoginsPerMonth lms_logins,
              target_value = ''>15 logins/month'',
              recommendation = ''Provide additional learning resources and one-on-one support'',
              priority = ''Medium'',
              priority_score = 5,
              impact_score = \<bar>lms_impact\<bar>,
              intervention_type = ''engagement_support'',
              timeline = ''2-3 weeks'',
              resources_needed = [''Online learning specialist'', ''Engaging content''],
              success_metrics = [''Login frequency'', ''Content interaction'']\<rparr>]
          else []) @
         (if online_time < 3 \<or> online_impact < - 0.05 then
            [\<lparr>factor = ''Low Online Activity'',
              current_value = HoursPerWeek1 online_time,
              target_value = ''>8 hours/week'',
              recommendation = ''Provide internet access support and digital literacy training'',
              priority = ''Medium'',
              priority_score = 4,
              impact_score = \<bar>online_impact\<bar>,
              intervention_type = ''technology_support'',
              timeline = ''1-2 weeks'',
              resources_needed = [''Internet access'', ''Digital literacy trainer''],
              success_metrics = [''Online activity time'', ''Digital skills improvement'']\<rparr>]
          else []))"

definition analyze_behavioral_risk :: "num_dict \<Rightarrow> num_dict \<Rightarrow> intervention list" where
  "analyze_behavioral_risk student_data feature_impacts =
     (let socioeconomic_status = dict_get student_data ''socioeconomic_status'' 3;
          ses_impact = dict_get feature_impacts ''socioeconomic_status'' 0
      in if socioeconomic_status < 2 \<or> ses_impact < - 0.05 then
           [\<lparr>factor = ''Socioeconomic Challenges'',
             current_value = Level socioeconomic_status,
             target_value = ''Improved support'',
             recommendation = ''Provide comprehensive support services and mentorship'',
             priority = ''High'',
             priority_score = 7,
             impact_score = \<bar>ses_impact\<bar>,
             intervention_type = ''comprehensive_support'',
             timeline = ''4-6 weeks'',
             resources_needed = [''Mentor'', ''Support services coordinator'', ''Community resources''],
             success_metrics = [''Overall well-being'', ''Academic persistence'']\<rparr>]
         else [])"

text \<open>The sort key of line 49.\<close>

definition rank_key :: "intervention \<Rightarrow> int \<times> real" where
  "rank_key x = (priority_score x, impact_score x)"

definition all_recommendations :: "num_dict \<Rightarrow> num_dict \<Rightarrow> intervention list" where
  "all_recommendations student_data feature_impacts =
     analyze_attendance_risk student_data feature_impacts @
     analyze_academic_performance_risk student_data feature_impacts @
     analyze_financial_risk student_data feature_impacts @
     analyze_engagement_risk student_data feature_impacts @
     analyze_behavioral_risk student_data feature_impacts"

definition analyze_student_risk_factors :: "num_dict \<Rightarrow> real list \<Rightarrow> string list \<Rightarrow> intervention list" where
  "analyze_student_risk_factors student_data shap_vals feature_names =
     (let feature_impacts = dict_zip feature_names shap_vals;
          recommendations = all_recommendations student_data feature_impacts
      in take 5 (sort_reverse rank_key recommendations))"

section \<open>data\_processor.py: DataProcessor\<close>

text \<open>
  A raw or processed DataFrame has columns of numeric dtype (int64 or float64; NaN is
  \<open>None\<close>) and columns of object dtype holding text (a missing entry is \<open>None\<close>).
\<close>

datatype column_data = NumCol "cell list" | ObjCol "string option list"

record table =
  t_nrows :: nat
  t_cols :: "(string \<times> column_data) list"

definition col_length :: "column_data \<Rightarrow> nat" where
  "col_length col = (case col of NumCol xs \<Rightarrow> length xs | ObjCol ss \<Rightarrow> length ss)"

definition wf_table :: "table \<Rightarrow> bool" where
  "wf_table df = (distinct (map fst (t_cols df)) \<and> list_all (\<lambda>cx. col_length (snd cx) = t_nrows df) (t_cols df))"

definition t_column :: "table \<Rightarrow> string \<Rightarrow> column_data option" where
  "t_column df c = map_of (t_cols df) c"


subsection \<open>Text operations\<close>








subsection \<open>config.py: lexicons\<close>



subsection \<open>\_clean\_data\_types\<close>






subsection \<open>\_handle\_missing\_values\<close>

definition missing_count :: "column_data \<Rightarrow> nat" where
  "missing_count col =
     (case col of
        NumCol xs \<Rightarrow> length (filter (\<lambda>v. v = None) xs)
      | ObjCol ss \<Rightarrow> length (filter (\<lambda>v. v = None) ss))"

text \<open>
  \<open>(missing_count / len(df)) * 100\<close>. For a table with no rows the source's value is
  NaN; no column of such a table has a missing value, so no branch reads it.
\<close>

definition missing_pct :: "nat \<Rightarrow> column_data \<Rightarrow> real" where
  "missing_pct n col = real (missing_count col) / real n * 100"

text \<open>
  \<open>Series.mode()\<close>: the most frequent of the values that are present, in ascending
  order; empty when no value is present.
\<close>

definition mode :: "string option list \<Rightarrow> string list" where
  "mode ss =
     (let ys = present ss;
          best = fold max (map (count_list ys) ys) 0
      in sort (remdups (filter (\<lambda>y. count_list ys y = best) ys)))"

text \<open>
  The body of the loop over the columns (lines 143 to 155): the column afterwards.
  \<open>fillna(..., inplace=True)\<close> on the selected column writes through to the table.
\<close>

definition impute_column :: "nat \<Rightarrow> column_data \<Rightarrow> column_data" where
  "impute_column n col =
     (if missing_count col > 0 then
        (if missing_pct n col > 30 then col
         else if missing_pct n col > 0 then
           (case col of
              NumCol xs \<Rightarrow> NumCol (fillna xs (median xs))
            | ObjCol ss \<Rightarrow>
                (case mode ss of
                   [] \<Rightarrow> col
                 | mode_value # _ \<Rightarrow> ObjCol (fillna ss (Some mode_value))))
         else col)
      else col)"

text \<open>
  \<open>_handle_missing_values\<close>: the table afterwards, \<open>missing_info\<close> (count and
  percentage by column), and the columns that \<open>logger.warning\<close> reported.
\<close>

definition handle_missing_values ::
    "table \<Rightarrow> table \<times> (string \<times> nat \<times> real) list \<times> string list" where
  "handle_missing_values df =
     (let n = t_nrows df in
      (df\<lparr>t_cols := map (\<lambda>cx. (fst cx, impute_column n (snd cx))) (t_cols df)\<rparr>,
       map (\<lambda>cx. (fst cx, missing_count (snd cx), missing_pct n (snd cx))) (t_cols df),
       map fst (filter (\<lambda>cx. missing_count (snd cx) > 0 \<and> missing_pct n (snd cx) > 30) (t_cols df))))"

section \<open>The label rule as the specification words it\<close>

text \<open>
  A record of a table gives, for a column name, nothing when the table has no such
  column and the record's cell otherwise. The specification's weight of a record: a
  term counts when its column is present and its value is below the bound.
\<close>

definition record_at :: "frame \<Rightarrow> nat \<Rightarrow> string \<Rightarrow> cell option" where
  "record_at df i c = map_option (\<lambda>xs. xs ! i) (column df c)"

definition spec_term :: "(string \<Rightarrow> cell option) \<Rightarrow> string \<Rightarrow> real \<Rightarrow> int \<Rightarrow> int" where
  "spec_term r c k w = (case r c of Some (Some x) \<Rightarrow> if x < k then w else 0 | _ \<Rightarrow> 0)"

definition spec_weight :: "(string \<Rightarrow> cell option) \<Rightarrow> int" where
  "spec_weight r =
     spec_term r ''attendance_percentage'' 60 2 + spec_term r ''assignment_timeliness'' 50 2 +
     spec_term r ''quiz_test_avg_pct'' 50 2 + spec_term r ''fee_payment_status'' 0.5 1 +
     spec_term r ''lms_login_count_monthly'' 5 1"

definition spec_label :: "(string \<Rightarrow> cell option) \<Rightarrow> int" where
  "spec_label r = (if spec_weight r \<ge> 3 then 1 else 0)"

text \<open>One conditional update of \<open>target\<close> in \<open>_create_synthetic_target\<close>.\<close>

definition add_col :: "frame \<Rightarrow> string \<Rightarrow> real \<Rightarrow> int \<Rightarrow> int list \<Rightarrow> int list" where
  "add_col df c k w target =
     (case column df c of None \<Rightarrow> target | Some xs \<Rightarrow> add_weighted target (lt_indicator xs k) w)"

section \<open>Example inputs\<close>

text \<open>The scenario record: attendance 40, quiz average 45, fees unpaid, 2 logins.\<close>

definition scenario_frame :: frame where
  "scenario_frame =
     \<lparr>nrows = 1,
      cols = [(''attendance_percentage'', [Some 40]), (''quiz_test_avg_pct'', [Some 45]),
              (''fee_payment_status'', [Some 0]), (''lms_login_count_monthly'', [Some 2])]\<rparr>"

definition demo_estimator :: estimator where
  "demo_estimator = \<lparr>est_predict = (\<lambda>row. if row = [Some 40] then 1 else 0),
                       est_predict_proba = (\<lambda>row. if row = [Some 40] then 0.75 else 0.125)\<rparr>"

definition demo_predictor :: predictor where
  "demo_predictor = \<lparr>model = Some demo_estimator, feature_columns = [''attendance_percentage''],
       training_metrics = [], model_version = Some ''v1'', is_trained = True\<rparr>"

definition demo_X :: frame where
  "demo_X = \<lparr>nrows = 2, cols = [(''attendance_percentage'', [Some 40, Some 90])]\<rparr>"

definition demo_tree_explainer :: tree_explainer where
  "demo_tree_explainer = \<lparr>te_shap_values = (\<lambda>row. [0.25]), te_expected_value = 0.5\<rparr>"

definition demo_explainer :: model_explainer where
  "demo_explainer = \<lparr>explainer = Some demo_tree_explainer, expected_value = Some 0.5\<rparr>"

text \<open>A predictor whose estimator gives every row the float32 nearest 0.65.\<close>

definition cut_point_estimator :: estimator where
  "cut_point_estimator = \<lparr>est_predict = (\<lambda>row. 1),
                            est_predict_proba = (\<lambda>row. 10905190 / 2 ^ 24)\<rparr>"

definition cut_point_predictor :: predictor where
  "cut_point_predictor = demo_predictor\<lparr>model := Some cut_point_estimator\<rparr>"

text \<open>A predictor trained on two features, and tables for it.\<close>

definition two_feature_predictor :: predictor where
  "two_feature_predictor =
     demo_predictor\<lparr>feature_columns := [''attendance_percentage'', ''quiz_test_avg_pct'']\<rparr>"

definition gap_X :: frame where
  "gap_X = \<lparr>nrows = 2, cols = [(''student_id'', [Some 1, Some 2]),
                                  (''attendance_percentage'', [Some 40, None])]\<rparr>"

definition empty_column_X :: frame where
  "empty_column_X = \<lparr>nrows = 1, cols = [(''attendance_percentage'', [None])]\<rparr>"




text \<open>A student record with two fields only.\<close>

definition demo_student :: num_dict where
  "demo_student = [''attendance_percentage'' \<mapsto> 50, ''fee_payment_status'' \<mapsto> 0]"


text \<open>Tables for the missing-value step: a column half empty, and a table whose columns
  are a quarter empty (numeric and text) and half empty.\<close>

definition sparse_table :: table where
  "sparse_table = \<lparr>t_nrows = 2, t_cols = [(''age'', NumCol [Some 20, None])]\<rparr>"

definition mostly_full_table :: table where
  "mostly_full_table =
     \<lparr>t_nrows = 4,
      t_cols = [(''age'', NumCol [Some 20, Some 30, Some 40, None]),
                (''gender'', ObjCol [Some ''f'', None, Some ''f'', Some ''f'']),
                (''student_name'', ObjCol [None, None, Some ''a'', Some ''b''])]\<rparr>"






section \<open>The steps of \<open>_clean_data_types\<close>\<close>



section \<open>Rules that outrank the engagement rules\<close>



section \<open>What \<open>predict\<close> scores\<close>

text \<open>
  The table \<open>predict\<close> hands to the estimator when every name is a column of \<open>X\<close>:
  the named columns in the order of the names, each missing cell replaced by the median
  of its own column in \<open>X\<close>.
\<close>

definition filled_column :: "frame \<Rightarrow> string \<Rightarrow> cell list" where
  "filled_column X c = (case column X c of None \<Rightarrow> [] | Some xs \<Rightarrow> fillna xs (median xs))"

definition aligned_filled :: "frame \<Rightarrow> string list \<Rightarrow> frame" where
  "aligned_filled X names = \<lparr>nrows = nrows X, cols = map (\<lambda>c. (c, filled_column X c)) names\<rparr>"

section \<open>Risk tiers\<close>

lemma float32_thresholds:
  "\<bar>float32_high - RISK_THRESHOLDS_high\<bar> < 1 / 2 ^ 25"
  "\<bar>float32_medium - RISK_THRESHOLDS_medium\<bar> < 1 / 2 ^ 26"
  "float32_high < 0.65" "float32_medium < 0.35" "float32_medium < float32_high"
  by (simp_all add: float32_high_def float32_medium_def RISK_THRESHOLDS_high_def
      RISK_THRESHOLDS_medium_def)

lemma float32_high_largest_below:
  fixes k :: int
  assumes "of_int k / 2 ^ 24 < (0.65 :: real)"
  shows "of_int k / 2 ^ 24 \<le> float32_high"
proof -
  from assms have "real_of_int k * 100 < 65 * 2 ^ 24"
    by (simp add: field_simps)
  then have "real_of_int (k * 100) < real_of_int (65 * 2 ^ 24)"
    by simp
  then have "k * 100 < 65 * 2 ^ 24"
    by (simp only: of_int_less_iff)
  then have "k \<le> 10905190" by simp
  then have "real_of_int k \<le> 10905190" by simp
  then show ?thesis
    by (simp add: float32_high_def field_simps)
qed

lemma float32_medium_largest_below:
  fixes k :: int
  assumes "of_int k / 2 ^ 25 < (0.35 :: real)"
  shows "of_int k / 2 ^ 25 \<le> float32_medium"
proof -
  from assms have "real_of_int k * 100 < 35 * 2 ^ 25"
    by (simp add: field_simps)
  then have "real_of_int (k * 100) < real_of_int (35 * 2 ^ 25)"
    by simp
  then have "k * 100 < 35 * 2 ^ 25"
    by (simp only: of_int_less_iff)
  then have "k \<le> 11744051" by simp
  then have "real_of_int k \<le> 11744051" by simp
  then show ?thesis
    by (simp add: float32_medium_def field_simps)
qed

lemma risk_label_cases:
  "(risk_label p = ''High'') = (float32_high \<le> p)"
  "(risk_label p = ''Medium'') = (float32_medium \<le> p \<and> p < float32_high)"
  "(risk_label p = ''Low'') = (p < float32_medium)"
  using float32_thresholds(5) by (auto simp: risk_label_def)

lemma local_risk_level_eq: "local_risk_level p = risk_label p"
  by (simp add: local_risk_level_def risk_label_def)

lemma predict_labels:
  "predict self X = Inr (preds, probs, labels) \<Longrightarrow> labels = map risk_label probs"
  by (auto simp: predict_def Let_def split: if_splits sum.splits option.splits)

lemma explain_one_level:
  "explain_one m me ex X i row = Inr e \<Longrightarrow> risk_level e = risk_label (probability e)"
  by (auto simp: explain_one_def Let_def local_risk_level_eq split: if_splits option.splits)

lemma collect_all:
  "collect rs = Inr vs \<Longrightarrow> (\<And>r v. r \<in> set rs \<Longrightarrow> r = Inr v \<Longrightarrow> P v) \<Longrightarrow> list_all P vs"
proof (induction rs arbitrary: vs)
  case Nil
  then show ?case by simp
next
  case (Cons r rs)
  from Cons.prems(1) obtain v vs' where r: "r = Inr v" and rs: "collect rs = Inr vs'"
    and vs: "vs = v # vs'"
    by (auto split: sum.splits)
  have "P v" using Cons.prems(2) [of r v] r by simp
  moreover have "list_all P vs'"
    using Cons.IH [OF rs] Cons.prems(2) by simp
  ultimately show ?case using vs by simp
qed

lemma explain_local_levels:
  assumes "explain_local m me X idx = Inr (es, b)"
  shows "list_all (\<lambda>e. risk_level e = risk_label (probability e)) es"
proof -
  from assms obtain ex ix sel where
    c: "collect (map (\<lambda>ir. explain_one m me ex X (fst ir) (snd ir)) (zip ix sel)) = Inr es"
    by (auto simp: explain_local_def Let_def split: option.splits sum.splits)
  show ?thesis
    by (rule collect_all [OF c]) (auto dest: explain_one_level [OF sym])
qed

lemma demo_labels:
  "risk_label 0.75 = ''High''" "risk_label 0.5 = ''Medium''" "risk_label 0.125 = ''Low''"
  by (simp_all add: risk_label_def float32_high_def float32_medium_def)

lemma demo_predict:
  "predict demo_predictor demo_X = Inr ([1, 0], [0.75, 0.125], [''High'', ''Low''])"
  by (simp add: predict_def demo_predictor_def demo_X_def select_columns_def columns_def column_def
      fillna_median_def fillna_def rows_of_def demo_estimator_def risk_label_def float32_high_def
      float32_medium_def upt_rec)

lemma demo_explain_local:
  "explain_local demo_predictor demo_explainer demo_X (Some [0]) =
     Inr ([\<lparr>student_index = 0, prediction = 1, probability = 0.75, risk_level = ''High'',
            top_features = [(''attendance_percentage'', 0.25, 0.25)], shap_values = [0.25],
            feature_values = [(''attendance_percentage'', Some 40)],
            le_expected_value = Some 0.5\<rparr>], Some 0.5)"
  by (simp add: explain_local_def demo_explainer_def demo_predictor_def demo_X_def iloc_def
      rows_of_def demo_tree_explainer_def explain_one_def sort_reverse_def local_risk_level_def
      float32_high_def float32_medium_def demo_estimator_def columns_def upt_rec Let_def)

text \<open>
  Claim C2 as stated fails at the cut points. The float32 nearest 0.65 is below 0.65, and
  a probability with that value is tagged High although it lies in the range the claim
  gives to Medium; the float32 nearest 0.35 is below 0.35, and \<open>explain_local\<close> (like
  \<open>predict\<close>) tags it Medium although the claim gives it to Low.
\<close>

theorem cut_point_tier_counterexample:
  "predict cut_point_predictor demo_X
     = Inr ([1, 1], [10905190 / 2 ^ 24, 10905190 / 2 ^ 24], [''High'', ''High'']) \<and>
   (0.35 :: real) \<le> 10905190 / 2 ^ 24 \<and> (10905190 / 2 ^ 24 :: real) < 0.65 \<and>
   local_risk_level (11744051 / 2 ^ 25) = ''Medium'' \<and>
   risk_label (11744051 / 2 ^ 25) = ''Medium'' \<and>
   (11744051 / 2 ^ 25 :: real) < 0.35"
  by (simp add: predict_def cut_point_predictor_def cut_point_estimator_def demo_predictor_def
      demo_X_def select_columns_def columns_def column_def fillna_median_def fillna_def
      rows_of_def risk_label_def local_risk_level_def float32_high_def float32_medium_def
      upt_rec)

text \<open>
  Claim C2, amended. Every probability gets exactly one tier, and the chain written out
  in \<open>explain_local\<close> gives the same tier as the one in \<open>predict\<close>. The cut points
  are the thresholds 0.65 and 0.35 as float32 numbers, 10905190 / 2^24
  (0.6499999761581421) and 11744051 / 2^25 (0.3499999940395355), each within half a
  unit in the last place of its threshold and the largest float32 below it: a
  probability at or above the first is High, one below the first and at or above the
  second is Medium, one below the second is Low. So among float32 probabilities the
  tiers are those of the thresholds 0.65 and 0.35 except for the two values just below
  them, which get the higher tier. The labels that \<open>predict\<close> returns are the tiers of
  the probabilities it returns, and each explanation of \<open>explain_local\<close> carries the
  tier of its probability.
\<close>

theorem risk_tiers_float32:
  "(risk_label p = ''High'') = (float32_high \<le> p) \<and>
   (risk_label p = ''Medium'') = (float32_medium \<le> p \<and> p < float32_high) \<and>
   (risk_label p = ''Low'') = (p < float32_medium) \<and>
   local_risk_level p = risk_label p \<and>
   float32_high = 10905190 / 2 ^ 24 \<and> float32_medium = 11744051 / 2 ^ 25 \<and>
   \<bar>float32_high - 0.65\<bar> < 1 / 2 ^ 25 \<and> \<bar>float32_medium - 0.35\<bar> < 1 / 2 ^ 26 \<and>
   (of_int k / 2 ^ 24 < (0.65 :: real) \<longrightarrow> of_int k / 2 ^ 24 \<le> float32_high) \<and>
   (of_int k / 2 ^ 25 < (0.35 :: real) \<longrightarrow> of_int k / 2 ^ 25 \<le> float32_medium) \<and>
   (predict self X = Inr (preds, probs, labels) \<longrightarrow> labels = map risk_label probs) \<and>
   (explain_local m me X' idx = Inr (es, b) \<longrightarrow>
      list_all (\<lambda>e. risk_level e = risk_label (probability e)) es)"
proof -
  have "\<bar>float32_high - 0.65\<bar> < 1 / 2 ^ 25" "\<bar>float32_medium - 0.35\<bar> < 1 / 2 ^ 26"
    using float32_thresholds(1,2)
    by (simp_all add: RISK_THRESHOLDS_high_def RISK_THRESHOLDS_medium_def)
  then show ?thesis
    using risk_label_cases [of p] local_risk_level_eq [of p] predict_labels explain_local_levels
      float32_high_largest_below [of k] float32_medium_largest_below [of k]
    by (simp add: float32_high_def float32_medium_def)
qed

theorem risk_tiers_float32_witness:
  "predict demo_predictor demo_X = Inr ([1, 0], [0.75, 0.125], [''High'', ''Low'']) \<and>
   [''High'', ''Low''] = map risk_label [0.75, 0.125] \<and>
   risk_label 0.5 = ''Medium'' \<and> local_risk_level 0.5 = ''Medium'' \<and>
   (of_int 10905190 / 2 ^ 24 < (0.65 :: real)) \<and> of_int 10905190 / 2 ^ 24 \<le> float32_high \<and>
   list_all (\<lambda>e. risk_level e = risk_label (probability e))
     [\<lparr>student_index = 0, prediction = 1, probability = 0.75, risk_level = ''High'',
       top_features = [(''attendance_percentage'', 0.25, 0.25)], shap_values = [0.25],
       feature_values = [(''attendance_percentage'', Some 40)],
       le_expected_value = Some 0.5\<rparr>]"
proof -
  have lt: "of_int 10905190 / 2 ^ 24 < (0.65 :: real)" by simp
  have m: "risk_label 0.5 = ''Medium''" by (rule demo_labels)
  from risk_tiers_float32 [of "0.5" 10905190 demo_predictor demo_X "[1, 0]" "[0.75, 0.125]"
      "[''High'', ''Low'']" demo_predictor demo_explainer demo_X "Some [0]" _ "Some 0.5"]
  have a: "local_risk_level 0.5 = risk_label 0.5"
    and b: "of_int 10905190 / 2 ^ 24 < (0.65 :: real) \<longrightarrow> of_int 10905190 / 2 ^ 24 \<le> float32_high"
    and c: "predict demo_predictor demo_X = Inr ([1, 0], [0.75, 0.125], [''High'', ''Low''])
              \<longrightarrow> [''High'', ''Low''] = map risk_label [0.75, 0.125]"
    and d: "explain_local demo_predictor demo_explainer demo_X (Some [0])
              = Inr ([\<lparr>student_index = 0, prediction = 1, probability = 0.75, risk_level = ''High'',
                top_features = [(''attendance_percentage'', 0.25, 0.25)], shap_values = [0.25],
                feature_values = [(''attendance_percentage'', Some 40)],
                le_expected_value = Some 0.5\<rparr>], Some 0.5)
            \<longrightarrow> list_all (\<lambda>e. risk_level e = risk_label (probability e))
                 [\<lparr>student_index = 0, prediction = 1, probability = 0.75, risk_level = ''High'',
                   top_features = [(''attendance_percentage'', 0.25, 0.25)], shap_values = [0.25],
                   feature_values = [(''attendance_percentage'', Some 40)],
                   le_expected_value = Some 0.5\<rparr>]"
    by blast+
  from a b c d lt m demo_predict demo_explain_local show ?thesis
    by (simp only: simp_thms)
qed

section \<open>Synthetic labels\<close>

lemma length_add_weighted: "length ind = length t \<Longrightarrow> length (add_weighted t ind w) = length t"
  by (simp add: add_weighted_def)

lemma add_weighted_nth:
  "i < length t \<Longrightarrow> length ind = length t \<Longrightarrow> add_weighted t ind w ! i = t ! i + ind ! i * w"
  by (simp add: add_weighted_def)

lemma wf_column_length: "wf_frame df \<Longrightarrow> column df c = Some xs \<Longrightarrow> length xs = nrows df"
  by (auto simp: wf_frame_def column_def list_all_iff dest!: map_of_SomeD)

lemma lt_indicator_nth:
  "i < length xs \<Longrightarrow>
     lt_indicator xs k ! i = (case xs ! i of None \<Rightarrow> 0 | Some x \<Rightarrow> if x < k then 1 else 0)"
  by (simp add: lt_indicator_def)

lemma length_lt_indicator: "length (lt_indicator xs k) = length xs"
  by (simp add: lt_indicator_def)

lemma add_col_length:
  "wf_frame df \<Longrightarrow> length t = nrows df \<Longrightarrow> length (add_col df c k w t) = nrows df"
  by (auto simp: add_col_def length_add_weighted length_lt_indicator wf_column_length
      split: option.splits)

lemma add_col_nth:
  "wf_frame df \<Longrightarrow> length t = nrows df \<Longrightarrow> i < nrows df \<Longrightarrow>
     add_col df c k w t ! i = t ! i + spec_term (record_at df i) c k w"
  by (auto simp: add_col_def add_weighted_nth length_lt_indicator lt_indicator_nth
      wf_column_length spec_term_def record_at_def split: option.splits)

lemma risk_weights_add_col:
  "risk_weights df =
     add_col df ''lms_login_count_monthly'' 5 1
      (add_col df ''fee_payment_status'' 0.5 1
        (add_col df ''quiz_test_avg_pct'' 50 2
          (add_col df ''assignment_timeliness'' 50 2
            (add_col df ''attendance_percentage'' 60 2 (replicate (nrows df) 0)))))"
  unfolding risk_weights_def add_col_def Let_def by (rule refl)

lemma risk_weights_nth:
  "wf_frame df \<Longrightarrow> i < nrows df \<Longrightarrow> risk_weights df ! i = spec_weight (record_at df i)"
  by (simp add: risk_weights_add_col add_col_nth add_col_length spec_weight_def)

lemma length_risk_weights: "wf_frame df \<Longrightarrow> length (risk_weights df) = nrows df"
  by (simp add: risk_weights_add_col add_col_length)

lemma synthetic_target_nth:
  "wf_frame df \<Longrightarrow> i < nrows df \<Longrightarrow>
     create_synthetic_target df ! i = spec_label (record_at df i)"
  by (simp add: create_synthetic_target_def length_risk_weights risk_weights_nth spec_label_def)

lemma prepare_target_nth:
  assumes "wf_frame df" "i < nrows df" "target_column \<notin> set (columns df)"
  shows "snd (snd (prepare_training_data self df target_column)) ! i
           = Some (of_int (spec_label (record_at df i)))"
  using assms
  by (simp add: prepare_training_data_def Let_def create_synthetic_target_def
      length_risk_weights risk_weights_nth spec_label_def)

lemma scenario_weights: "risk_weights scenario_frame = [6]"
  by (simp add: risk_weights_def scenario_frame_def column_def add_weighted_def lt_indicator_def)

lemma scenario_wf: "wf_frame scenario_frame"
  by (simp add: wf_frame_def scenario_frame_def)

text \<open>
  Claim C3. When the table has no outcome column, the label of every record is 1
  exactly when the record's weight is at least 3, where the weight is 2 for attendance
  below 60, 2 for assignment timeliness below 50, 2 for quiz average below 50, 1 for
  payment status below 0.5 and 1 for fewer than 5 monthly logins, each term counted only
  when its column is present. The scenario record (attendance 40, quiz 45, unpaid, 2
  logins) has weight 6 and label 1.
\<close>

theorem synthetic_label_rule:
  assumes "wf_frame df" and "i < nrows df" and "target_column \<notin> set (columns df)"
  shows "risk_weights df ! i = spec_weight (record_at df i) \<and>
         create_synthetic_target df ! i = (if spec_weight (record_at df i) \<ge> 3 then 1 else 0) \<and>
         length (create_synthetic_target df) = nrows df \<and>
         snd (snd (prepare_training_data self df target_column)) ! i
           = Some (if spec_weight (record_at df i) \<ge> 3 then 1 else 0) \<and>
         risk_weights scenario_frame = [6] \<and>
         create_synthetic_target scenario_frame = [1]"
proof (intro conjI)
  show "risk_weights df ! i = spec_weight (record_at df i)"
    using assms by (simp add: risk_weights_nth)
  show "create_synthetic_target df ! i = (if spec_weight (record_at df i) \<ge> 3 then 1 else 0)"
    using assms synthetic_target_nth [of df i] by (simp add: spec_label_def)
  show "length (create_synthetic_target df) = nrows df"
    using assms by (simp add: create_synthetic_target_def length_risk_weights)
  show "snd (snd (prepare_training_data self df target_column)) ! i
          = Some (if spec_weight (record_at df i) \<ge> 3 then 1 else 0)"
    using prepare_target_nth [OF assms, of self] by (simp add: spec_label_def)
  show "risk_weights scenario_frame = [6]"
    by (rule scenario_weights)
  show "create_synthetic_target scenario_frame = [1]"
    by (simp add: create_synthetic_target_def scenario_weights)
qed

theorem synthetic_label_rule_witness:
  "wf_frame scenario_frame \<and> 0 < nrows scenario_frame \<and>
   ''dropout'' \<notin> set (columns scenario_frame) \<and>
   spec_weight (record_at scenario_frame 0) = 6 \<and>
   create_synthetic_target scenario_frame ! 0 = 1 \<and>
   snd (snd (prepare_training_data init_predictor scenario_frame ''dropout'')) ! 0 = Some 1"
proof -
  have h1: "wf_frame scenario_frame" by (rule scenario_wf)
  have h2: "0 < nrows scenario_frame" by (simp add: scenario_frame_def)
  have h3: "''dropout'' \<notin> set (columns scenario_frame)"
    by (simp add: columns_def scenario_frame_def)
  show ?thesis
    using h1 h2 h3 synthetic_label_rule [OF h1 h2 h3, of init_predictor]
    by (simp add: scenario_weights)
qed

section \<open>Prediction on aligned and misaligned tables\<close>

lemma select_columns_present:
  "set names \<subseteq> set (columns X) \<Longrightarrow>
   select_columns X names =
     Inr \<lparr>nrows = nrows X,
          cols = map (\<lambda>c. (c, case column X c of Some xs \<Rightarrow> xs | None \<Rightarrow> [])) names\<rparr>"
  by (auto simp: select_columns_def Let_def filter_empty_conv)

lemma fillna_median_selected:
  "set names \<subseteq> set (columns X) \<Longrightarrow>
   fillna_median
     \<lparr>nrows = nrows X,
      cols = map (\<lambda>c. (c, case column X c of Some xs \<Rightarrow> xs | None \<Rightarrow> [])) names\<rparr>
     = aligned_filled X names"
  by (auto simp: fillna_median_def aligned_filled_def filled_column_def columns_def column_def
      fillna_def split: option.splits)

lemma predict_aligned:
  assumes "is_trained self" "model self = Some est"
    "set (feature_columns self) \<subseteq> set (columns X)"
  shows "predict self X =
     Inr (map (est_predict est) (rows_of (aligned_filled X (feature_columns self))),
          map (est_predict_proba est) (rows_of (aligned_filled X (feature_columns self))),
          map (\<lambda>r. risk_label (est_predict_proba est r))
            (rows_of (aligned_filled X (feature_columns self))))"
  using assms
  by (simp add: predict_def select_columns_present fillna_median_selected Let_def comp_def)

lemma filled_column_eq:
  "column X c = Some xs \<Longrightarrow>
   filled_column X c = map (\<lambda>v. case v of None \<Rightarrow> median xs | Some y \<Rightarrow> Some y) xs"
  by (simp add: filled_column_def fillna_def)

lemma gap_X_rows:
  "rows_of (aligned_filled gap_X [''attendance_percentage'']) = [[Some 40], [Some 40]]"
  by (simp add: aligned_filled_def gap_X_def rows_of_def filled_column_def column_def median_def
      present_def fillna_def upt_rec)

lemma empty_column_X_rows:
  "rows_of (aligned_filled empty_column_X [''attendance_percentage'']) = [[None]]"
  by (simp add: aligned_filled_def empty_column_X_def rows_of_def filled_column_def column_def
      median_def present_def fillna_def upt_rec)

text \<open>
  Claim C4 as stated fails: with a trained model whose features are attendance and
  quiz average, a table that has no quiz column makes \<open>predict\<close> raise KeyError at
  the column selection of line 221; nothing is filled and no result is returned.
\<close>

theorem predict_missing_column_counterexample:
  "is_trained two_feature_predictor \<and>
   model two_feature_predictor = Some demo_estimator \<and>
   ''quiz_test_avg_pct'' \<in> set (feature_columns two_feature_predictor) \<and>
   ''quiz_test_avg_pct'' \<notin> set (columns demo_X) \<and>
   predict two_feature_predictor demo_X = Inl (KeyError [''quiz_test_avg_pct''])"
  by (simp add: two_feature_predictor_def demo_predictor_def demo_X_def predict_def
      select_columns_def columns_def)

text \<open>
  Claim C4, amended. For a trained model, \<open>predict\<close> on a table that has every
  trained feature column returns a result without raising: it takes exactly the trained
  columns in their trained order, replaces each missing cell by the median of that
  column in the table it was given (a column with no value at all stays missing), and
  returns the estimator's labels and probabilities of the rows with the tier of each
  probability.
\<close>

theorem predict_on_aligned_table:
  assumes "is_trained self" and "model self = Some est"
    and "set (feature_columns self) \<subseteq> set (columns X)"
  shows "predict self X =
           Inr (map (est_predict est) (rows_of (aligned_filled X (feature_columns self))),
                map (est_predict_proba est) (rows_of (aligned_filled X (feature_columns self))),
                map (\<lambda>r. risk_label (est_predict_proba est r))
                  (rows_of (aligned_filled X (feature_columns self)))) \<and>
         columns (aligned_filled X (feature_columns self)) = feature_columns self \<and>
         (\<forall>c xs. column X c = Some xs \<longrightarrow>
            filled_column X c = map (\<lambda>v. case v of None \<Rightarrow> median xs | Some y \<Rightarrow> Some y) xs) \<and>
         rows_of (aligned_filled empty_column_X [''attendance_percentage'']) = [[None]]"
  using predict_aligned [OF assms] filled_column_eq empty_column_X_rows
  by (simp add: columns_def aligned_filled_def comp_def)

theorem predict_on_aligned_table_witness:
  "is_trained demo_predictor \<and> model demo_predictor = Some demo_estimator \<and>
   set (feature_columns demo_predictor) \<subseteq> set (columns gap_X) \<and>
   column gap_X ''attendance_percentage'' = Some [Some 40, None] \<and>
   median [Some 40, None] = Some 40 \<and>
   filled_column gap_X ''attendance_percentage'' = [Some 40, Some 40] \<and>
   predict demo_predictor gap_X = Inr ([1, 1], [0.75, 0.75], [''High'', ''High''])"
proof -
  have h1: "is_trained demo_predictor" by (simp add: demo_predictor_def)
  have h2: "model demo_predictor = Some demo_estimator" by (simp add: demo_predictor_def)
  have h3: "set (feature_columns demo_predictor) \<subseteq> set (columns gap_X)"
    by (simp add: demo_predictor_def gap_X_def columns_def)
  have h4: "column gap_X ''attendance_percentage'' = Some [Some 40, None]"
    by (simp add: gap_X_def column_def)
  have m: "median [Some 40, None] = Some 40"
    by (simp add: median_def present_def)
  have f: "feature_columns demo_predictor = [''attendance_percentage'']"
    by (simp add: demo_predictor_def)
  have l: "risk_label (3 / 4) = ''High''"
    by (simp add: risk_label_def float32_high_def)
  from predict_on_aligned_table [OF h1 h2 h3]
  have p: "predict demo_predictor gap_X =
             Inr (map (est_predict demo_estimator)
                    (rows_of (aligned_filled gap_X (feature_columns demo_predictor))),
                  map (est_predict_proba demo_estimator)
                    (rows_of (aligned_filled gap_X (feature_columns demo_predictor))),
                  map (\<lambda>r. risk_label (est_predict_proba demo_estimator r))
                    (rows_of (aligned_filled gap_X (feature_columns demo_predictor))))"
    and c: "\<forall>c xs. column gap_X c = Some xs \<longrightarrow>
              filled_column gap_X c = map (\<lambda>v. case v of None \<Rightarrow> median xs | Some y \<Rightarrow> Some y) xs"
    by blast+
  from c h4 have fc: "filled_column gap_X ''attendance_percentage'' = [Some 40, Some 40]"
    by (simp add: m)
  from p have "predict demo_predictor gap_X = Inr ([1, 1], [0.75, 0.75], [''High'', ''High''])"
    by (simp add: f gap_X_rows demo_estimator_def l)
  with h1 h2 h3 h4 m fc show ?thesis by blast
qed

section \<open>Loading an artifact\<close>










section \<open>Calls before training or initialisation\<close>

lemma not_trained_predict:
  "\<not> is_trained self \<Longrightarrow>
   predict self X = Inl (ValueError ''Model must be trained before making predictions'')"
  by (simp add: predict_def)

lemma not_initialized_global:
  "explainer me = None \<Longrightarrow>
   explain_global m me X =
     Inl (ValueError ''Explainer not initialized. Call initialize_explainer first.'')"
  by (simp add: explain_global_def)

lemma not_initialized_local:
  "explainer me = None \<Longrightarrow>
   explain_local m me X idx =
     Inl (ValueError ''Explainer not initialized. Call initialize_explainer first.'')"
  by (simp add: explain_local_def)

lemma initialize_sets_explainer:
  "initialize_explainer T m me Xb = Inr me' \<Longrightarrow> explainer me' \<noteq> None"
  by (auto simp: initialize_explainer_def Let_def split: if_splits option.splits)

text \<open>
  Claim C6. \<open>predict\<close> on a predictor that is not trained raises and returns no
  prediction; \<open>explain_global\<close> and \<open>explain_local\<close> on an explainer that has not
  been initialised raise and return no explanation. The predictor and the explainer
  start out untrained and uninitialised, and \<open>initialize_explainer\<close> is what sets the
  explainer. The source raises both conditions as \<open>ValueError\<close>, told apart by the
  message.
\<close>

theorem not_ready_raises:
  "(\<not> is_trained self \<longrightarrow>
      predict self X = Inl (ValueError ''Model must be trained before making predictions'')) \<and>
   (explainer me = None \<longrightarrow>
      explain_global m me X =
        Inl (ValueError ''Explainer not initialized. Call initialize_explainer first.'') \<and>
      explain_local m me X idx =
        Inl (ValueError ''Explainer not initialized. Call initialize_explainer first.'')) \<and>
   \<not> is_trained init_predictor \<and> explainer init_explainer = None \<and>
   (initialize_explainer T m me Xb = Inr me' \<longrightarrow> explainer me' \<noteq> None)"
  using not_trained_predict [of self X] not_initialized_global [of me m X]
    not_initialized_local [of me m X idx] initialize_sets_explainer [of T m me Xb me']
  by (simp add: init_predictor_def init_explainer_def)

theorem not_ready_raises_witness:
  "predict init_predictor demo_X =
     Inl (ValueError ''Model must be trained before making predictions'') \<and>
   explain_global demo_predictor init_explainer demo_X =
     Inl (ValueError ''Explainer not initialized. Call initialize_explainer first.'') \<and>
   explain_local demo_predictor init_explainer demo_X (Some [0]) =
     Inl (ValueError ''Explainer not initialized. Call initialize_explainer first.'') \<and>
   initialize_explainer (\<lambda>est. demo_tree_explainer) demo_predictor init_explainer demo_X
     = Inr demo_explainer \<and>
   explainer demo_explainer \<noteq> None"
proof -
  have i: "initialize_explainer (\<lambda>est. demo_tree_explainer) demo_predictor init_explainer demo_X
             = Inr demo_explainer"
    by (simp add: initialize_explainer_def demo_predictor_def init_explainer_def
        demo_explainer_def demo_tree_explainer_def)
  show ?thesis
    using i not_ready_raises [of init_predictor demo_X init_explainer demo_predictor "Some [0]"
        "\<lambda>est. demo_tree_explainer" demo_X demo_explainer]
    by (simp add: init_predictor_def init_explainer_def)
qed

section \<open>Ranking of recommendations\<close>

lemma sort_reverse_sorted: "sorted_wrt (\<lambda>a b. key b \<le> key a) (sort_reverse key xs)"
proof -
  have "sorted (map key (sort_key key (rev xs)))"
    by (rule sorted_sort_key)
  then have "sorted_wrt (\<lambda>a b. key a \<le> key b) (sort_key key (rev xs))"
    by (simp add: sorted_map)
  then show ?thesis
    by (simp add: sort_reverse_def sorted_wrt_rev)
qed

lemma ranked_nth:
  "i < j \<Longrightarrow> j < length (analyze_student_risk_factors sd sv fn) \<Longrightarrow>
   rank_key (analyze_student_risk_factors sd sv fn ! j)
     \<le> rank_key (analyze_student_risk_factors sd sv fn ! i)"
  using sorted_wrt_nth_less
    [OF sorted_wrt_take [OF sort_reverse_sorted [of rank_key], of 5], of i j]
  by (simp add: analyze_student_risk_factors_def Let_def)

lemma rank_key_le:
  "rank_key a \<le> rank_key b \<longleftrightarrow>
     priority_score a < priority_score b \<or>
     (priority_score a = priority_score b \<and> impact_score a \<le> impact_score b)"
  by (auto simp: rank_key_def)

lemma demo_student_ranking:
  "map (\<lambda>r. (factor r, priority_score r, impact_score r))
     (analyze_student_risk_factors demo_student [- 0.25, - 0.5]
        [''attendance_percentage'', ''fee_payment_status''])
   = [(''Financial Issues'', 9, 0.5), (''Low Attendance'', 9, 0.25),
      (''Low Online Engagement'', 5, 0), (''Low Online Activity'', 4, 0)]"
  by (simp add: analyze_student_risk_factors_def all_recommendations_def dict_zip_def
      demo_student_def analyze_attendance_risk_def analyze_academic_performance_risk_def
      analyze_financial_risk_def analyze_engagement_risk_def analyze_behavioral_risk_def
      dict_get_def sort_reverse_def rank_key_def Let_def)

text \<open>
  Claim C7. Whatever the student record, the attribution vector and the feature names,
  the list that \<open>analyze_student_risk_factors\<close> returns has at most 5 entries and is
  in descending order of the pair (priority score, impact score): of any two entries the
  later one has the smaller priority score, or the same priority score and an impact
  score that is not greater.
\<close>

theorem recommendations_ranked:
  "length (analyze_student_risk_factors sd sv fn) \<le> 5 \<and>
   (\<forall>i j. i < j \<and> j < length (analyze_student_risk_factors sd sv fn) \<longrightarrow>
      priority_score (analyze_student_risk_factors sd sv fn ! j)
        < priority_score (analyze_student_risk_factors sd sv fn ! i) \<or>
      (priority_score (analyze_student_risk_factors sd sv fn ! j)
         = priority_score (analyze_student_risk_factors sd sv fn ! i) \<and>
       impact_score (analyze_student_risk_factors sd sv fn ! j)
         \<le> impact_score (analyze_student_risk_factors sd sv fn ! i)))"
proof (intro conjI allI impI)
  show "length (analyze_student_risk_factors sd sv fn) \<le> 5"
    by (simp add: analyze_student_risk_factors_def Let_def)
next
  fix i j
  assume "i < j \<and> j < length (analyze_student_risk_factors sd sv fn)"
  then have "rank_key (analyze_student_risk_factors sd sv fn ! j)
               \<le> rank_key (analyze_student_risk_factors sd sv fn ! i)"
    by (simp add: ranked_nth)
  then show "priority_score (analyze_student_risk_factors sd sv fn ! j)
        < priority_score (analyze_student_risk_factors sd sv fn ! i) \<or>
      (priority_score (analyze_student_risk_factors sd sv fn ! j)
         = priority_score (analyze_student_risk_factors sd sv fn ! i) \<and>
       impact_score (analyze_student_risk_factors sd sv fn ! j)
         \<le> impact_score (analyze_student_risk_factors sd sv fn ! i))"
    by (simp add: rank_key_le)
qed

theorem recommendations_ranked_witness:
  "length (analyze_student_risk_factors demo_student [- 0.25, - 0.5]
      [''attendance_percentage'', ''fee_payment_status'']) = 4 \<and>
   map factor (analyze_student_risk_factors demo_student [- 0.25, - 0.5]
      [''attendance_percentage'', ''fee_payment_status''])
     = [''Financial Issues'', ''Low Attendance'', ''Low Online Engagement'',
        ''Low Online Activity''] \<and>
   (priority_score (analyze_student_risk_factors demo_student [- 0.25, - 0.5]
      [''attendance_percentage'', ''fee_payment_status''] ! 1)
     < priority_score (analyze_student_risk_factors demo_student [- 0.25, - 0.5]
      [''attendance_percentage'', ''fee_payment_status''] ! 0) \<or>
    priority_score (analyze_student_risk_factors demo_student [- 0.25, - 0.5]
      [''attendance_percentage'', ''fee_payment_status''] ! 1)
     = priority_score (analyze_student_risk_factors demo_student [- 0.25, - 0.5]
      [''attendance_percentage'', ''fee_payment_status''] ! 0) \<and>
    impact_score (analyze_student_risk_factors demo_student [- 0.25, - 0.5]
      [''attendance_percentage'', ''fee_payment_status''] ! 1)
     \<le> impact_score (analyze_student_risk_factors demo_student [- 0.25, - 0.5]
      [''attendance_percentage'', ''fee_payment_status''] ! 0))"
proof -
  let ?r = "analyze_student_risk_factors demo_student [- 0.25, - 0.5]
      [''attendance_percentage'', ''fee_payment_status'']"
  have "length (map (\<lambda>r. (factor r, priority_score r, impact_score r)) ?r) = 4"
    by (simp only: demo_student_ranking) simp
  then have len: "length ?r = 4" by simp
  have "map fst (map (\<lambda>r. (factor r, priority_score r, impact_score r)) ?r)
          = [''Financial Issues'', ''Low Attendance'', ''Low Online Engagement'',
             ''Low Online Activity'']"
    by (simp only: demo_student_ranking) simp
  then have facs: "map factor ?r = [''Financial Issues'', ''Low Attendance'',
      ''Low Online Engagement'', ''Low Online Activity'']"
    by (simp add: comp_def)
  have h: "(0::nat) < 1 \<and> 1 < length ?r" using len by simp
  from recommendations_ranked [of demo_student "[- 0.25, - 0.5]"
      "[''attendance_percentage'', ''fee_payment_status'']"] h
  have "priority_score (?r ! 1) < priority_score (?r ! 0) \<or>
        priority_score (?r ! 1) = priority_score (?r ! 0) \<and>
        impact_score (?r ! 1) \<le> impact_score (?r ! 0)"
    by blast
  with len facs show ?thesis by blast
qed

section \<open>Defaults of absent fields\<close>








lemma lms_default:
  "sd ''lms_login_count_monthly'' = None \<Longrightarrow>
   ''Low Online Engagement'' \<in> set (map factor (analyze_engagement_risk sd fi))"
  by (simp add: analyze_engagement_risk_def dict_get_def Let_def)

lemma online_default:
  "sd ''time_spent_online_hours_week'' = None \<Longrightarrow>
   ''Low Online Activity'' \<in> set (map factor (analyze_engagement_risk sd fi))"
  by (simp add: analyze_engagement_risk_def dict_get_def Let_def)

























section \<open>Missing values\<close>

lemma length_present: "length (present xs) + length (filter (\<lambda>v. v = None) xs) = length xs"
  by (induction xs) (auto simp: present_def split: option.splits)

lemma present_nonempty: "length (filter (\<lambda>v. v = None) xs) < length xs \<Longrightarrow> present xs \<noteq> []"
  using length_present [of xs] by auto

lemma median_some:
  assumes "present xs \<noteq> []"
  shows "\<exists>m. median xs = Some m"
proof -
  let ?ys = "sort (present xs)"
  have n: "length ?ys \<noteq> 0" using assms by simp
  show ?thesis
  proof (cases "odd (length ?ys)")
    case True
    with n have "median xs = Some (?ys ! (length ?ys div 2))"
      unfolding median_def Let_def by simp
    then show ?thesis by blast
  next
    case False
    with n have "median xs = Some ((?ys ! (length ?ys div 2 - 1) + ?ys ! (length ?ys div 2)) / 2)"
      unfolding median_def Let_def by simp
    then show ?thesis by blast
  qed
qed

lemma fillna_no_missing: "filter (\<lambda>v. v = None) (fillna xs (Some m)) = []"
  by (induction xs) (auto simp: fillna_def split: option.splits)

lemma fold_max_mem: "fold max xs (a::nat) \<in> insert a (set xs)"
  by (induction xs arbitrary: a) (auto simp: max_def)

lemma fold_max_ge_init: "(a::nat) \<le> fold max xs a"
proof (induction xs arbitrary: a)
  case Nil
  then show ?case by simp
next
  case (Cons x xs)
  have "a \<le> max x a" by simp
  also have "\<dots> \<le> fold max xs (max x a)" by (rule Cons.IH)
  finally show ?case by simp
qed

lemma fold_max_ge_elem: "x \<in> set xs \<Longrightarrow> (x::nat) \<le> fold max xs a"
proof (induction xs arbitrary: a)
  case Nil
  then show ?case by simp
next
  case (Cons y ys)
  show ?case
  proof (cases "x = y")
    case True
    have "x \<le> max y a" using True by simp
    also have "\<dots> \<le> fold max ys (max y a)" by (rule fold_max_ge_init)
    finally show ?thesis by simp
  next
    case False
    with Cons.prems have "x \<in> set ys" by simp
    then show ?thesis using Cons.IH by simp
  qed
qed

lemma mode_nonempty:
  assumes "present ss \<noteq> []"
  shows "mode ss \<noteq> []"
proof -
  let ?ys = "present ss"
  let ?cs = "map (count_list ?ys) ?ys"
  let ?best = "fold max ?cs 0"
  from assms obtain y where y: "y \<in> set ?ys" by (cases ?ys) auto
  then have "count_list ?ys y \<noteq> 0" by (simp add: count_list_0_iff)
  then have "count_list ?ys y > 0" by simp
  moreover have "count_list ?ys y \<le> ?best"
    using y by (intro fold_max_ge_elem) simp
  ultimately have "?best \<noteq> 0" by simp
  with fold_max_mem [of ?cs 0] have "?best \<in> set ?cs" by auto
  then obtain z where "z \<in> set ?ys" "count_list ?ys z = ?best" by auto
  then have F: "filter (\<lambda>y. count_list ?ys y = ?best) ?ys \<noteq> []"
    by (auto simp: filter_empty_conv)
  have "set (sort (remdups (filter (\<lambda>y. count_list ?ys y = ?best) ?ys)))
          = set (filter (\<lambda>y. count_list ?ys y = ?best) ?ys)"
    by simp
  with F have "set (sort (remdups (filter (\<lambda>y. count_list ?ys y = ?best) ?ys))) \<noteq> {}"
    by (simp only: set_empty) simp
  then have "sort (remdups (filter (\<lambda>y. count_list ?ys y = ?best) ?ys)) \<noteq> []"
    by (simp only: set_empty not_False_eq_True)
  then show ?thesis
    unfolding mode_def Let_def .
qed

lemma pct_small_count_lt:
  assumes "missing_pct n col \<le> 30" "0 < missing_count col" "missing_count col \<le> n"
  shows "missing_count col < n"
proof -
  from assms have n: "0 < n" by simp
  from assms(1) n have "real (missing_count col) * 100 \<le> 30 * real n"
    by (simp add: missing_pct_def field_simps)
  then show ?thesis using n by linarith
qed

lemma pct_pos: "0 < missing_count col \<Longrightarrow> 0 < n \<Longrightarrow> 0 < missing_pct n col"
  by (simp add: missing_pct_def)

lemma missing_count_le: "missing_count col \<le> col_length col"
  by (simp add: missing_count_def col_length_def split: column_data.splits)

lemma impute_num:
  assumes "col_length (NumCol xs) = n" "0 < missing_count (NumCol xs)"
    "missing_pct n (NumCol xs) \<le> 30"
  shows "\<exists>m. median xs = Some m \<and> impute_column n (NumCol xs) = NumCol (fillna xs (Some m))"
proof -
  have lt: "missing_count (NumCol xs) < n"
    using pct_small_count_lt [OF assms(3) assms(2)] missing_count_le [of "NumCol xs"] assms(1)
    by simp
  then have "present xs \<noteq> []"
    using assms(1) by (intro present_nonempty) (simp add: missing_count_def col_length_def)
  then obtain m where m: "median xs = Some m" using median_some by blast
  have "0 < n" using lt by simp
  then have "0 < missing_pct n (NumCol xs)" using assms(2) by (simp add: pct_pos)
  with m assms show ?thesis by (simp add: impute_column_def)
qed

lemma impute_obj:
  assumes "col_length (ObjCol ss) = n" "0 < missing_count (ObjCol ss)"
    "missing_pct n (ObjCol ss) \<le> 30"
  shows "\<exists>m rest. mode ss = m # rest \<and> impute_column n (ObjCol ss) = ObjCol (fillna ss (Some m))"
proof -
  have lt: "missing_count (ObjCol ss) < n"
    using pct_small_count_lt [OF assms(3) assms(2)] missing_count_le [of "ObjCol ss"] assms(1)
    by simp
  then have "present ss \<noteq> []"
    using assms(1) by (intro present_nonempty) (simp add: missing_count_def col_length_def)
  then have "mode ss \<noteq> []" by (rule mode_nonempty)
  then obtain m rest where m: "mode ss = m # rest" by (cases "mode ss") auto
  have "0 < n" using lt by simp
  then have "0 < missing_pct n (ObjCol ss)" using assms(2) by (simp add: pct_pos)
  with m assms show ?thesis by (simp add: impute_column_def)
qed

lemma impute_filled:
  assumes "col_length col = n" "missing_pct n col \<le> 30"
  shows "missing_count (impute_column n col) = 0"
proof (cases "0 < missing_count col")
  case False
  then show ?thesis by (simp add: impute_column_def)
next
  case True
  show ?thesis
  proof (cases col)
    case (NumCol xs)
    with impute_num [of xs n] assms True show ?thesis
      by (auto simp: missing_count_def fillna_no_missing)
  next
    case (ObjCol ss)
    with impute_obj [of ss n] assms True show ?thesis
      by (auto simp: missing_count_def fillna_no_missing)
  qed
qed

lemma impute_flagged:
  "0 < missing_count col \<Longrightarrow> missing_pct n col > 30 \<Longrightarrow> impute_column n col = col"
  by (simp add: impute_column_def)

lemma impute_complete: "missing_count col = 0 \<Longrightarrow> impute_column n col = col"
  by (simp add: impute_column_def)

lemma handle_names: "map fst (t_cols (fst (handle_missing_values df))) = map fst (t_cols df)"
  by (simp add: handle_missing_values_def Let_def comp_def)

lemma handle_nrows: "t_nrows (fst (handle_missing_values df)) = t_nrows df"
  by (simp add: handle_missing_values_def Let_def)

lemma map_of_map_snd:
  "distinct (map fst xs) \<Longrightarrow> (c, v) \<in> set xs \<Longrightarrow>
   map_of (map (\<lambda>cx. (fst cx, f (snd cx))) xs) c = Some (f v)"
  by (induction xs) (auto simp: rev_image_eqI)

lemma handle_column:
  "wf_table df \<Longrightarrow> (c, col) \<in> set (t_cols df) \<Longrightarrow>
   t_column (fst (handle_missing_values df)) c = Some (impute_column (t_nrows df) col)"
  by (simp add: handle_missing_values_def Let_def t_column_def wf_table_def map_of_map_snd)

lemma handle_warned:
  "(c, col) \<in> set (t_cols df) \<Longrightarrow> 0 < missing_count col \<Longrightarrow>
   missing_pct (t_nrows df) col > 30 \<Longrightarrow>
   c \<in> set (snd (snd (handle_missing_values df)))"
  by (force simp: handle_missing_values_def Let_def)

lemma wf_col_length:
  "wf_table df \<Longrightarrow> (c, col) \<in> set (t_cols df) \<Longrightarrow> col_length col = t_nrows df"
  by (auto simp: wf_table_def list_all_iff)

lemma mostly_full_handled:
  "handle_missing_values mostly_full_table =
     (\<lparr>t_nrows = 4,
        t_cols = [(''age'', NumCol [Some 20, Some 30, Some 40, Some 30]),
                  (''gender'', ObjCol [Some ''f'', Some ''f'', Some ''f'', Some ''f'']),
                  (''student_name'', ObjCol [None, None, Some ''a'', Some ''b''])]\<rparr>,
      [(''age'', 1, 25), (''gender'', 1, 25), (''student_name'', 2, 50)], [''student_name''])"
  by (simp add: mostly_full_table_def handle_missing_values_def impute_column_def
      missing_count_def missing_pct_def fillna_def median_def present_def mode_def)

text \<open>
  Claim C8 as stated fails: a column with half of its values missing is reported and
  left as it is, so its missing value is still missing after the step.
\<close>

theorem sparse_column_counterexample:
  "wf_table sparse_table \<and>
   handle_missing_values sparse_table = (sparse_table, [(''age'', 1, 50)], [''age'']) \<and>
   t_column sparse_table ''age'' = Some (NumCol [Some 20, None]) \<and>
   missing_count (NumCol [Some 20, None]) = 1"
  by (simp add: sparse_table_def handle_missing_values_def impute_column_def missing_count_def
      missing_pct_def wf_table_def col_length_def t_column_def)

text \<open>
  Claim C8, amended. The missing-value step drops no column and no row. A column with
  no missing value is unchanged. A column with missing values that make up at most 30%
  of its rows has every one of them filled, a numeric column with its median and a text
  column with its mode (the first of the most frequent values), and has no missing
  value afterwards. A column with more than 30% missing is reported in a warning and
  left unchanged, missing values included.
\<close>

theorem missing_values_policy:
  assumes "wf_table df" and "(c, col) \<in> set (t_cols df)"
  shows "map fst (t_cols (fst (handle_missing_values df))) = map fst (t_cols df) \<and>
         t_nrows (fst (handle_missing_values df)) = t_nrows df \<and>
         t_column (fst (handle_missing_values df)) c = Some (impute_column (t_nrows df) col) \<and>
         (missing_count col = 0 \<longrightarrow> impute_column (t_nrows df) col = col) \<and>
         (missing_pct (t_nrows df) col \<le> 30 \<longrightarrow>
            missing_count (impute_column (t_nrows df) col) = 0) \<and>
         (\<forall>xs. col = NumCol xs \<and> 0 < missing_count col \<and> missing_pct (t_nrows df) col \<le> 30 \<longrightarrow>
            (\<exists>m. median xs = Some m \<and>
                 impute_column (t_nrows df) col = NumCol (fillna xs (Some m)))) \<and>
         (\<forall>ss. col = ObjCol ss \<and> 0 < missing_count col \<and> missing_pct (t_nrows df) col \<le> 30 \<longrightarrow>
            (\<exists>m rest. mode ss = m # rest \<and>
                 impute_column (t_nrows df) col = ObjCol (fillna ss (Some m)))) \<and>
         (0 < missing_count col \<and> 30 < missing_pct (t_nrows df) col \<longrightarrow>
            impute_column (t_nrows df) col = col \<and>
            c \<in> set (snd (snd (handle_missing_values df))))"
proof -
  have len: "col_length col = t_nrows df"
    using assms by (rule wf_col_length)
  show ?thesis
    using handle_names [of df] handle_nrows [of df] handle_column [OF assms]
      impute_complete [of col "t_nrows df"] impute_filled [OF len]
      impute_num [of _ "t_nrows df"] impute_obj [of _ "t_nrows df"] len
      impute_flagged [of col "t_nrows df"] handle_warned [OF assms(2)]
    by blast
qed

theorem missing_values_policy_witness:
  "wf_table mostly_full_table \<and>
   t_column (fst (handle_missing_values mostly_full_table)) ''age''
     = Some (NumCol [Some 20, Some 30, Some 40, Some 30]) \<and>
   missing_count (impute_column 4 (NumCol [Some 20, Some 30, Some 40, None])) = 0 \<and>
   t_column (fst (handle_missing_values mostly_full_table)) ''gender''
     = Some (ObjCol [Some ''f'', Some ''f'', Some ''f'', Some ''f'']) \<and>
   impute_column 4 (ObjCol [None, None, Some ''a'', Some ''b''])
     = ObjCol [None, None, Some ''a'', Some ''b''] \<and>
   ''student_name'' \<in> set (snd (snd (handle_missing_values mostly_full_table)))"
proof -
  have wf: "wf_table mostly_full_table"
    by (simp add: wf_table_def mostly_full_table_def col_length_def)
  have n: "t_nrows mostly_full_table = 4"
    by (simp add: mostly_full_table_def)
  have m1: "(''age'', NumCol [Some 20, Some 30, Some 40, None]) \<in> set (t_cols mostly_full_table)"
    and m2: "(''gender'', ObjCol [Some ''f'', None, Some ''f'', Some ''f''])
               \<in> set (t_cols mostly_full_table)"
    and m3: "(''student_name'', ObjCol [None, None, Some ''a'', Some ''b''])
               \<in> set (t_cols mostly_full_table)"
    by (simp_all add: mostly_full_table_def)
  have p1: "missing_pct 4 (NumCol [Some 20, Some 30, Some 40, None]) \<le> 30"
    and p3: "0 < missing_count (ObjCol [None, None, Some ''a'', Some ''b'']) \<and>
             30 < missing_pct 4 (ObjCol [None, None, Some ''a'', Some ''b''])"
    by (simp_all add: missing_pct_def missing_count_def)
  have a: "missing_count (impute_column 4 (NumCol [Some 20, Some 30, Some 40, None])) = 0"
    using missing_values_policy [OF wf m1] p1 by (simp add: n)
  have c: "impute_column 4 (ObjCol [None, None, Some ''a'', Some ''b''])
             = ObjCol [None, None, Some ''a'', Some ''b''] \<and>
           ''student_name'' \<in> set (snd (snd (handle_missing_values mostly_full_table)))"
    using missing_values_policy [OF wf m3] p3 by (simp add: n)
  have b: "t_column (fst (handle_missing_values mostly_full_table)) ''age''
             = Some (NumCol [Some 20, Some 30, Some 40, Some 30])"
    "t_column (fst (handle_missing_values mostly_full_table)) ''gender''
             = Some (ObjCol [Some ''f'', Some ''f'', Some ''f'', Some ''f''])"
    by (simp_all add: mostly_full_handled t_column_def)
  from wf a b c show ?thesis by blast
qed

section \<open>Cleaning of percentage fields\<close>













end
